theory Spec2Isabelle
  imports Complex_Main "HOL-Library.DAList"
begin

section \<open>Data model of module_reloader.py\<close>

text \<open>
  Time stamps are the floats returned by \<^verbatim>\<open>time.time()\<close> and \<^verbatim>\<open>os.path.getmtime\<close>.
  The program only stores and compares them, so they are modelled as reals.
\<close>

type_synonym timestamp = real

text \<open>\<^verbatim>\<open>importlib.machinery.ModuleSpec\<close>: the two attributes the program reads.\<close>

record ModuleSpec =
  spec_name :: string
  origin :: "string option"

text \<open>The dataclass \<^verbatim>\<open>LoadedModuleInfo\<close> (lines 12-16); its field \<^verbatim>\<open>module_name\<close> is
  \<open>info_module_name\<close> here.\<close>

record LoadedModuleInfo =
  info_module_name :: string
  path :: string
  load_time :: timestamp

text \<open>
  A Python dict keeps its keys distinct and iterates in insertion order: an association
  list with distinct keys. Assigning to a present key keeps its position, assigning to a new
  key appends (\<open>DAList.update\<close>).
\<close>

type_synonym registry = "(string, LoadedModuleInfo) alist"

text \<open>
  The attribute \<^verbatim>\<open>__file__\<close> of a module object: missing (built-in modules),
  \<^verbatim>\<open>None\<close>, or a string.
\<close>

datatype file_attr = No_file_attr | File_None | File_str string

record pymodule =
  mod_name :: string
  mod_file :: file_attr

datatype py_error =
    AssertionError
  | KeyError string
  | AttributeError string
  | FileNotFoundError string
  | ModuleNotFoundError string
  | Foreign string

text \<open>
  An entry of \<^verbatim>\<open>sys.meta_path\<close>: an object with a \<^verbatim>\<open>find_spec(fullname, path, target)\<close>
  method, which returns a spec or \<^verbatim>\<open>None\<close> or raises, or an object without that
  attribute.
\<close>

datatype finder =
    Finder "string \<Rightarrow> string list option \<Rightarrow> pymodule option \<Rightarrow> py_error + ModuleSpec option"
  | No_find_spec

type_synonym addr = nat

text \<open>
  The state the program reads and writes:
  \<^item> \<open>dicts\<close>: the store of dict objects, by address; the module-level name
    \<^verbatim>\<open>loaded_modules\<close> (line 20) is bound to the address \<open>loaded_modules_ref\<close> for the
    whole run;
  \<^item> \<open>sys_modules\<close>: \<^verbatim>\<open>sys.modules\<close>;
  \<^item> \<open>meta_path_tail\<close>: \<^verbatim>\<open>sys.meta_path[1:]\<close>, the finders behind the
    \<^verbatim>\<open>CustomImportFinder\<close> that line 78 inserts at index 0;
  \<^item> \<open>files\<close>: the modification time of each existing file (\<open>None\<close>: no such file);
  \<^item> \<open>clock\<close>: what \<^verbatim>\<open>time.time()\<close> returns in this state.
\<close>

record world =
  dicts :: "addr \<Rightarrow> registry"
  sys_modules :: "string \<rightharpoonup> pymodule"
  meta_path_tail :: "finder list"
  files :: "string \<rightharpoonup> timestamp"
  clock :: timestamp

text \<open>A call returns a value or raises, and leaves a state behind in both cases.\<close>

type_synonym 'a result = "(py_error + 'a) \<times> world"

definition loaded_modules_ref :: addr where
  "loaded_modules_ref = 0"

definition loaded_modules :: "world \<Rightarrow> registry" where
  "loaded_modules w = dicts w loaded_modules_ref"

definition set_loaded_modules :: "registry \<Rightarrow> world \<Rightarrow> world" where
  "set_loaded_modules r w = w\<lparr>dicts := (dicts w)(loaded_modules_ref := r)\<rparr>"

text \<open>\<^verbatim>\<open>k in d\<close> and \<^verbatim>\<open>d.items()\<close>.\<close>

definition dict_contains :: "registry \<Rightarrow> string \<Rightarrow> bool" where
  "dict_contains d k = (DAList.lookup d k \<noteq> None)"

definition dict_items :: "registry \<Rightarrow> (string \<times> LoadedModuleInfo) list" where
  "dict_items d = DAList.impl_of d"

section \<open>The registry operations\<close>

text \<open>
  \<^verbatim>\<open>track_module\<close> (lines 23-31). \<^verbatim>\<open>assert spec.origin\<close> fails on \<^verbatim>\<open>None\<close> and on
  the empty string (assertions enabled, as the interpreter runs by default).
\<close>

definition track_module :: "ModuleSpec \<Rightarrow> world \<Rightarrow> unit result" where
  "track_module spec w =
     (if \<not> dict_contains (loaded_modules w) (spec_name spec) then
        (case origin spec of
           None \<Rightarrow> (Inl AssertionError, w)
         | Some p \<Rightarrow>
             if p = [] then (Inl AssertionError, w)
             else (Inr (),
                   set_loaded_modules
                     (DAList.update (spec_name spec)
                        \<lparr>info_module_name = spec_name spec, path = p, load_time = clock w\<rparr>
                        (loaded_modules w)) w))
      else (Inr (), w))"

text \<open>\<^verbatim>\<open>update_module_load_time\<close> (lines 34-37): the info object is mutated in place.\<close>

definition update_module_load_time :: "string \<Rightarrow> world \<Rightarrow> world" where
  "update_module_load_time name w =
     (case DAList.lookup (loaded_modules w) name of
        None \<Rightarrow> w
      | Some info \<Rightarrow>
          set_loaded_modules
            (DAList.update name (info\<lparr>load_time := clock w\<rparr>) (loaded_modules w)) w)"

text \<open>
  \<^verbatim>\<open>get_loaded_modules\<close> (lines 40-41) returns the object bound to \<^verbatim>\<open>loaded_modules\<close>,
  that is its address; \<open>read_dict\<close> is what a holder of an address sees in a state.
\<close>

definition get_loaded_modules :: "world \<Rightarrow> addr" where
  "get_loaded_modules w = loaded_modules_ref"

definition read_dict :: "world \<Rightarrow> addr \<Rightarrow> registry" where
  "read_dict w a = dicts w a"

section \<open>Reloading\<close>

text \<open>
  \<^verbatim>\<open>importlib.reload\<close> belongs to the standard library and runs the module's own
  top-level code, so \<open>reload_module\<close> takes it as a parameter: given the module object it
  returns or raises, and leaves a state behind.
\<close>

type_synonym engine = "pymodule \<Rightarrow> world \<Rightarrow> unit result"

text \<open>\<^verbatim>\<open>reload_module\<close> (lines 44-47).\<close>

definition reload_module :: "engine \<Rightarrow> string \<Rightarrow> world \<Rightarrow> unit result" where
  "reload_module reload name w =
     (case sys_modules w name of
        None \<Rightarrow> (Inr (), w)
      | Some m \<Rightarrow>
          (case reload m w of
             (Inl e, w') \<Rightarrow> (Inl e, w')
           | (Inr _, w') \<Rightarrow> (Inr (), update_module_load_time name w')))"

section \<open>Staleness\<close>

text \<open>
  The body of the loop of \<^verbatim>\<open>get_stale_modules\<close> (lines 53-57) for one item:
  \<open>Inr True\<close> when the name is appended, \<open>Inr False\<close> when it is passed over.
  \<^verbatim>\<open>sys.modules[name]\<close> raises KeyError on a missing key, reading a missing attribute
  raises AttributeError, \<^verbatim>\<open>os.path.getmtime\<close> raises FileNotFoundError on a missing
  file, and \<^verbatim>\<open>if module_file:\<close> is false on \<^verbatim>\<open>None\<close> and on the empty string.
\<close>

definition stale_check :: "world \<Rightarrow> string \<Rightarrow> LoadedModuleInfo \<Rightarrow> py_error + bool" where
  "stale_check w name info =
     (case sys_modules w name of
        None \<Rightarrow> Inl (KeyError name)
      | Some m \<Rightarrow>
          (case mod_file m of
             No_file_attr \<Rightarrow> Inl (AttributeError ''__file__'')
           | File_None \<Rightarrow> Inr False
           | File_str module_file \<Rightarrow>
               if module_file = [] then Inr False
               else (case files w module_file of
                       None \<Rightarrow> Inl (FileNotFoundError module_file)
                     | Some mod_time \<Rightarrow> Inr (mod_time > load_time info))))"


fun stale_loop ::
  "world \<Rightarrow> (string \<times> LoadedModuleInfo) list \<Rightarrow> string list \<Rightarrow> py_error + string list" where
  "stale_loop w [] stale_modules = Inr stale_modules"
| "stale_loop w ((name, info) # items) stale_modules =
     (case stale_check w name info of
        Inl e \<Rightarrow> Inl e
      | Inr b \<Rightarrow> stale_loop w items (if b then stale_modules @ [name] else stale_modules))"

text \<open>\<^verbatim>\<open>get_stale_modules\<close> (lines 50-58); it changes no state.\<close>

definition get_stale_modules :: "world \<Rightarrow> py_error + string list" where
  "get_stale_modules w = stale_loop w (dict_items (loaded_modules w)) []"

text \<open>
  \<^verbatim>\<open>reload_stale_modules\<close> (lines 61-63): the list is computed once, then each name is
  reloaded in turn; nothing catches an exception.
\<close>

fun reload_each :: "engine \<Rightarrow> string list \<Rightarrow> world \<Rightarrow> unit result" where
  "reload_each reload [] w = (Inr (), w)"
| "reload_each reload (name # names) w =
     (case reload_module reload name w of
        (Inl e, w') \<Rightarrow> (Inl e, w')
      | (Inr _, w') \<Rightarrow> reload_each reload names w')"

definition reload_stale_modules :: "engine \<Rightarrow> world \<Rightarrow> unit result" where
  "reload_stale_modules reload w =
     (case get_stale_modules w of
        Inl e \<Rightarrow> (Inl e, w)
      | Inr names \<Rightarrow> reload_each reload names w)"

section \<open>The import finder\<close>

text \<open>
  \<^verbatim>\<open>CustomImportFinder.find_spec\<close> (lines 67-74): the loop over
  \<^verbatim>\<open>sys.meta_path[1:]\<close>. An exception of a finder or of \<open>track_module\<close> leaves the loop.
\<close>

fun find_spec_loop ::
  "finder list \<Rightarrow> string \<Rightarrow> string list option \<Rightarrow> pymodule option \<Rightarrow> world
     \<Rightarrow> ModuleSpec option result" where
  "find_spec_loop [] fullname pth target w = (Inr None, w)"
| "find_spec_loop (No_find_spec # finders) fullname pth target w =
     find_spec_loop finders fullname pth target w"
| "find_spec_loop (Finder f # finders) fullname pth target w =
     (case f fullname pth target of
        Inl e \<Rightarrow> (Inl e, w)
      | Inr None \<Rightarrow> find_spec_loop finders fullname pth target w
      | Inr (Some spec) \<Rightarrow>
          (case track_module spec w of
             (Inl e, w') \<Rightarrow> (Inl e, w')
           | (Inr _, w') \<Rightarrow> (Inr (Some spec), w')))"

definition find_spec ::
  "string \<Rightarrow> string list option \<Rightarrow> pymodule option \<Rightarrow> world \<Rightarrow> ModuleSpec option result" where
  "find_spec fullname pth target w = find_spec_loop (meta_path_tail w) fullname pth target w"


text \<open>
  How the standard library reaches this code on a reload. \<^verbatim>\<open>importlib.reload(module)\<close>
  resolves the module again before it executes it:
  \<^verbatim>\<open>spec = module.__spec__ = _bootstrap._find_spec(name, pkgpath, target)\<close> asks the entries of
  \<^verbatim>\<open>sys.meta_path\<close> in order, and line 78 has put the \<^verbatim>\<open>CustomImportFinder\<close> first; a
  missing spec raises ModuleNotFoundError. For a top-level module \<^verbatim>\<open>pkgpath\<close> is
  \<^verbatim>\<open>None\<close>. The execution of the module's code is the parameter \<open>exec\<close>.
\<close>

definition importlib_reload :: "(ModuleSpec \<Rightarrow> engine) \<Rightarrow> engine" where
  "importlib_reload exec m w =
     (case find_spec (mod_name m) None (Some m) w of
        (Inl e, w') \<Rightarrow> (Inl e, w')
      | (Inr None, w') \<Rightarrow> (Inl (ModuleNotFoundError (mod_name m)), w')
      | (Inr (Some spec), w') \<Rightarrow> exec spec m w')"

section \<open>Concrete states\<close>

text \<open>The empty registry at clock reading 100, with nothing loaded and no file.\<close>

definition world0 :: world where
  "world0 = \<lparr>dicts = (\<lambda>_. DAList.empty), sys_modules = Map.empty, meta_path_tail = [],
     files = Map.empty, clock = 100\<rparr>"

definition spec_pkg_mod :: ModuleSpec where
  "spec_pkg_mod = \<lparr>spec_name = ''pkg.mod'', origin = Some ''/tmp/pkg/mod.py''\<rparr>"

definition spec_pkg_mod_moved :: ModuleSpec where
  "spec_pkg_mod_moved = \<lparr>spec_name = ''pkg.mod'', origin = Some ''/srv/pkg/mod.py''\<rparr>"

text \<open>The state after \<^verbatim>\<open>pkg.mod\<close> has been tracked at 100.\<close>

definition world_tracked :: world where
  "world_tracked = snd (track_module spec_pkg_mod world0)"

text \<open>A spec with the empty string as its name.\<close>

definition spec_empty_name :: ModuleSpec where
  "spec_empty_name = \<lparr>spec_name = [], origin = Some ''/tmp/x.py''\<rparr>"

text \<open>
  \<^verbatim>\<open>pkg.mod\<close> tracked at 100 and loaded from \<^verbatim>\<open>/tmp/pkg/mod.py\<close>, whose modification
  time is \<open>mtime\<close>; the clock reads \<open>now\<close>.
\<close>

definition mod_pkg_mod :: pymodule where
  "mod_pkg_mod = \<lparr>mod_name = ''pkg.mod'', mod_file = File_str ''/tmp/pkg/mod.py''\<rparr>"

definition world_loaded :: "timestamp \<Rightarrow> timestamp \<Rightarrow> world" where
  "world_loaded mtime now =
     world_tracked\<lparr>sys_modules := [''pkg.mod'' \<mapsto> mod_pkg_mod],
                   files := [''/tmp/pkg/mod.py'' \<mapsto> mtime], clock := now\<rparr>"


text \<open>
  Two tracked modules \<^verbatim>\<open>a\<close> and \<^verbatim>\<open>b\<close>, in this insertion order, both loaded at 100
  from files modified at 150; then the same state with \<^verbatim>\<open>a\<close> gone from
  \<^verbatim>\<open>sys.modules\<close>, and with the file of \<^verbatim>\<open>a\<close> deleted.
\<close>

definition info_a :: LoadedModuleInfo where
  "info_a = \<lparr>info_module_name = ''a'', path = ''/src/a.py'', load_time = 100\<rparr>"

definition info_b :: LoadedModuleInfo where
  "info_b = \<lparr>info_module_name = ''b'', path = ''/src/b.py'', load_time = 100\<rparr>"

definition mod_a :: pymodule where
  "mod_a = \<lparr>mod_name = ''a'', mod_file = File_str ''/src/a.py''\<rparr>"

definition mod_b :: pymodule where
  "mod_b = \<lparr>mod_name = ''b'', mod_file = File_str ''/src/b.py''\<rparr>"

definition world_ab :: world where
  "world_ab =
     \<lparr>dicts = (\<lambda>_. DAList.update ''b'' info_b (DAList.update ''a'' info_a DAList.empty)),
      sys_modules = [''a'' \<mapsto> mod_a, ''b'' \<mapsto> mod_b],
      meta_path_tail = [],
      files = [''/src/a.py'' \<mapsto> 150, ''/src/b.py'' \<mapsto> 150],
      clock = 200\<rparr>"

definition world_a_unloaded :: world where
  "world_a_unloaded = world_ab\<lparr>sys_modules := [''b'' \<mapsto> mod_b]\<rparr>"

definition world_a_deleted :: world where
  "world_a_deleted = world_ab\<lparr>files := [''/src/b.py'' \<mapsto> 150]\<rparr>"

text \<open>An execution engine that re-executes every module without effect and without error.\<close>

definition reload_ok :: engine where
  "reload_ok m w = (Inr (), w)"

text \<open>An execution engine under which the top-level code of \<^verbatim>\<open>a\<close> raises.\<close>

definition reload_a_fails :: engine where
  "reload_a_fails m w =
     (if mod_name m = ''a'' then (Inl (Foreign ''SyntaxError in a''), w) else (Inr (), w))"

text \<open>An execution engine under which the top-level code of \<^verbatim>\<open>b\<close> raises.\<close>

definition reload_b_fails :: engine where
  "reload_b_fails m w =
     (if mod_name m = ''b'' then (Inl (Foreign ''SyntaxError in b''), w) else (Inr (), w))"

text \<open>
  A module \<^verbatim>\<open>os\<close> that was imported before the finder was installed: it is in
  \<^verbatim>\<open>sys.modules\<close> and not in the registry, and the path finder behind the
  \<^verbatim>\<open>CustomImportFinder\<close> finds its file.
\<close>

definition os_spec :: ModuleSpec where
  "os_spec = \<lparr>spec_name = ''os'', origin = Some ''/usr/lib/python3/os.py''\<rparr>"

definition path_finder :: "string \<Rightarrow> string list option \<Rightarrow> pymodule option \<Rightarrow> py_error + ModuleSpec option" where
  "path_finder fullname pth target = (if fullname = ''os'' then Inr (Some os_spec) else Inr None)"

definition mod_os :: pymodule where
  "mod_os = \<lparr>mod_name = ''os'', mod_file = File_str ''/usr/lib/python3/os.py''\<rparr>"

definition world_os :: world where
  "world_os = world0\<lparr>sys_modules := [''os'' \<mapsto> mod_os], meta_path_tail := [Finder path_finder],
                     files := [''/usr/lib/python3/os.py'' \<mapsto> 50]\<rparr>"

text \<open>The execution of a module's code, without effect and without error.\<close>

definition exec_ok :: "ModuleSpec \<Rightarrow> engine" where
  "exec_ok spec m w = (Inr (), w)"

text \<open>
  A finder that answers every name with a spec that has no origin (as the path finder does
  for a namespace package), behind an entry without \<^verbatim>\<open>find_spec\<close>; \<^verbatim>\<open>pkg.mod\<close> is
  tracked already, \<^verbatim>\<open>ns_pkg\<close> is not.
\<close>

definition originless :: "string \<Rightarrow> string list option \<Rightarrow> pymodule option \<Rightarrow> py_error + ModuleSpec option" where
  "originless fullname pth target = Inr (Some \<lparr>spec_name = fullname, origin = None\<rparr>)"

definition world_ns :: world where
  "world_ns = world_tracked\<lparr>meta_path_tail := [No_find_spec, Finder originless]\<rparr>"


section \<open>Basic facts\<close>

lemma loaded_modules_set [simp]: "loaded_modules (set_loaded_modules r w) = r"
  by (simp add: loaded_modules_def set_loaded_modules_def)

lemma set_loaded_modules_fields [simp]:
  "sys_modules (set_loaded_modules r w) = sys_modules w"
  "meta_path_tail (set_loaded_modules r w) = meta_path_tail w"
  "files (set_loaded_modules r w) = files w"
  "clock (set_loaded_modules r w) = clock w"
  by (simp_all add: set_loaded_modules_def)

lemma dict_items_update:
  "dict_items (DAList.update k v d) = AList.update k v (dict_items d)"
  by (simp add: dict_items_def update.rep_eq)

lemma dict_items_empty [simp]: "dict_items DAList.empty = []"
  by (simp add: dict_items_def empty.rep_eq)

lemma lookup_items: "DAList.lookup d k = map_of (dict_items d) k"
  by (simp add: dict_items_def lookup.rep_eq)

lemma distinct_dict_items [simp]: "distinct (map fst (dict_items d))"
  by (simp add: dict_items_def)

lemma count_key_distinct:
  "distinct (map fst xs) \<Longrightarrow> map_of xs k = Some v \<Longrightarrow> length (filter (\<lambda>e. fst e = k) xs) = 1"
proof (induction xs)
  case Nil
  then show ?case by simp
next
  case (Cons x xs)
  show ?case
  proof (cases "fst x = k")
    case True
    with Cons.prems have "k \<notin> fst ` set xs" by auto
    then have "filter (\<lambda>e. fst e = k) xs = []" by (auto simp: filter_empty_conv)
    with True show ?thesis by simp
  next
    case False
    with Cons show ?thesis by (cases x) auto
  qed
qed

lemma track_module_ok_contains:
  "track_module spec w = (Inr (), w1) \<Longrightarrow> dict_contains (loaded_modules w1) (spec_name spec)"
  by (auto simp: track_module_def dict_contains_def split: if_splits option.splits)

lemma loaded_modules_world0 [simp]: "loaded_modules world0 = DAList.empty"
  by (simp add: world0_def loaded_modules_def)

lemma track_pkg_mod_world0:
  "track_module spec_pkg_mod world0 =
     (Inr (), set_loaded_modules
        (DAList.update ''pkg.mod''
           \<lparr>info_module_name = ''pkg.mod'', path = ''/tmp/pkg/mod.py'', load_time = 100\<rparr>
           DAList.empty) world0)"
  by (simp add: track_module_def spec_pkg_mod_def dict_contains_def) (simp add: world0_def)

lemma loaded_modules_world_tracked:
  "loaded_modules world_tracked =
     DAList.update ''pkg.mod''
       \<lparr>info_module_name = ''pkg.mod'', path = ''/tmp/pkg/mod.py'', load_time = 100\<rparr>
       DAList.empty"
  by (simp add: world_tracked_def track_pkg_mod_world0)

section \<open>Tracking\<close>

text \<open>
  C5. Once \<open>track_module\<close> has returned for an identity, a second call for the same
  identity, at any later clock reading and whatever origin the second spec carries, returns
  without changing the state: the registry holds exactly one entry for the identity, with the
  path and the load time of the first call (or, when the identity was tracked even before the
  first call, the registry is still the one from before).
\<close>

theorem track_module_twice:
  assumes first: "track_module spec1 w = (Inr (), w1)"
      and same: "spec_name spec2 = spec_name spec1"
      and later: "loaded_modules w2 = loaded_modules w1"
  shows "track_module spec2 w2 = (Inr (), w2)
       \<and> length (filter (\<lambda>e. fst e = spec_name spec1) (dict_items (loaded_modules w2))) = 1
       \<and> (\<forall>p. \<not> dict_contains (loaded_modules w) (spec_name spec1) \<and> origin spec1 = Some p \<longrightarrow>
            DAList.lookup (loaded_modules w2) (spec_name spec1) =
              Some \<lparr>info_module_name = spec_name spec1, path = p, load_time = clock w\<rparr>)
       \<and> (dict_contains (loaded_modules w) (spec_name spec1) \<longrightarrow>
            loaded_modules w2 = loaded_modules w)"
proof -
  have c: "dict_contains (loaded_modules w2) (spec_name spec2)"
    using track_module_ok_contains [OF first] same later by simp
  then have 1: "track_module spec2 w2 = (Inr (), w2)"
    by (simp add: track_module_def)
  from c obtain v where "map_of (dict_items (loaded_modules w2)) (spec_name spec1) = Some v"
    by (auto simp: dict_contains_def lookup_items same)
  then have 2: "length (filter (\<lambda>e. fst e = spec_name spec1) (dict_items (loaded_modules w2))) = 1"
    by (rule count_key_distinct [OF distinct_dict_items])
  have 3: "\<forall>p. \<not> dict_contains (loaded_modules w) (spec_name spec1) \<and> origin spec1 = Some p \<longrightarrow>
            DAList.lookup (loaded_modules w2) (spec_name spec1) =
              Some \<lparr>info_module_name = spec_name spec1, path = p, load_time = clock w\<rparr>"
    using first later by (auto simp: track_module_def split: if_splits)
  have 4: "dict_contains (loaded_modules w) (spec_name spec1) \<longrightarrow> loaded_modules w2 = loaded_modules w"
    using first later by (auto simp: track_module_def)
  from 1 2 3 4 show ?thesis by blast
qed

text \<open>
  The first call at clock 100, the second at clock 200 with another origin: the entry keeps
  the first path and the load time 100.
\<close>

theorem track_module_twice_witness:
  "track_module spec_pkg_mod world0 = (Inr (), world_tracked)
   \<and> track_module spec_pkg_mod_moved (world_tracked\<lparr>clock := 200\<rparr>)
       = (Inr (), world_tracked\<lparr>clock := 200\<rparr>)
   \<and> length (filter (\<lambda>e. fst e = ''pkg.mod'')
        (dict_items (loaded_modules (world_tracked\<lparr>clock := 200\<rparr>)))) = 1
   \<and> DAList.lookup (loaded_modules (world_tracked\<lparr>clock := 200\<rparr>)) ''pkg.mod''
       = Some \<lparr>info_module_name = ''pkg.mod'', path = ''/tmp/pkg/mod.py'', load_time = 100\<rparr>"
proof -
  have h1: "track_module spec_pkg_mod world0 = (Inr (), world_tracked)"
    by (simp add: world_tracked_def track_pkg_mod_world0)
  have h2: "spec_name spec_pkg_mod_moved = spec_name spec_pkg_mod"
    by (simp add: spec_pkg_mod_def spec_pkg_mod_moved_def)
  have h3: "loaded_modules (world_tracked\<lparr>clock := 200\<rparr>) = loaded_modules world_tracked"
    by (simp add: loaded_modules_def)
  have h4: "\<not> dict_contains (loaded_modules world0) (spec_name spec_pkg_mod)"
    by (simp add: dict_contains_def)
  have h5: "origin spec_pkg_mod = Some ''/tmp/pkg/mod.py''" "spec_name spec_pkg_mod = ''pkg.mod''"
    by (simp_all add: spec_pkg_mod_def)
  have h6: "clock world0 = 100"
    by (simp add: world0_def)
  from track_module_twice [OF h1 h2 h3] h1 h4 h5 h6 show ?thesis
    by simp
qed

text \<open>
  C9, as the spec states it: an empty identity is rejected. \<open>track_module\<close> does not look
  at the name: from the empty registry, a spec named by the empty string with an origin is
  tracked under the empty key.
\<close>

theorem track_module_empty_identity_counterexample:
  "fst (track_module spec_empty_name world0) = Inr ()
   \<and> \<not> dict_contains (loaded_modules world0) []
   \<and> DAList.lookup (loaded_modules (snd (track_module spec_empty_name world0))) []
       = Some \<lparr>info_module_name = [], path = ''/tmp/x.py'', load_time = 100\<rparr>"
  by (simp add: track_module_def spec_empty_name_def dict_contains_def) (simp add: world0_def)

text \<open>
  C9, amended. \<open>track_module\<close> rejects no identity, empty or not. It raises exactly when
  the identity is untracked and the spec has no origin or an empty one (the assertion of
  line 26); in every other case it returns, and for an untracked identity with an origin the
  entry is created under that identity.
\<close>

theorem track_module_rejects_only_missing_origin:
  "(fst (track_module spec w) = Inl AssertionError \<longleftrightarrow>
      \<not> dict_contains (loaded_modules w) (spec_name spec)
      \<and> (origin spec = None \<or> origin spec = Some []))
   \<and> (fst (track_module spec w) = Inr () \<longleftrightarrow>
      \<not> (\<not> dict_contains (loaded_modules w) (spec_name spec)
      \<and> (origin spec = None \<or> origin spec = Some [])))
   \<and> (\<forall>p. \<not> dict_contains (loaded_modules w) (spec_name spec) \<and> origin spec = Some p \<and> p \<noteq> [] \<longrightarrow>
        DAList.lookup (loaded_modules (snd (track_module spec w))) (spec_name spec)
          = Some \<lparr>info_module_name = spec_name spec, path = p, load_time = clock w\<rparr>)"
  by (auto simp: track_module_def split: option.splits)

theorem track_module_rejects_only_missing_origin_witness:
  "fst (track_module spec_empty_name world0) = Inr ()
   \<and> DAList.lookup (loaded_modules (snd (track_module spec_empty_name world0))) []
       = Some \<lparr>info_module_name = [], path = ''/tmp/x.py'', load_time = 100\<rparr>"
proof -
  have h1: "\<not> dict_contains (loaded_modules world0) (spec_name spec_empty_name)"
    by (simp add: dict_contains_def)
  have h2: "origin spec_empty_name = Some ''/tmp/x.py''" "spec_name spec_empty_name = []"
    by (simp_all add: spec_empty_name_def)
  have h3: "clock world0 = 100" by (simp add: world0_def)
  from track_module_rejects_only_missing_origin [of spec_empty_name world0] h1 h2 h3
  show ?thesis by simp
qed

section \<open>The all-entries query\<close>

text \<open>
  C8, as the spec states it: the collection returned by \<open>get_loaded_modules\<close> is a copy
  that later mutations do not alter. The caller of \<open>get_loaded_modules\<close> in the empty
  registry holds a collection that is empty then and shows \<^verbatim>\<open>pkg.mod\<close> after a later
  \<open>track_module\<close>.
\<close>

theorem get_loaded_modules_snapshot_counterexample:
  "read_dict world0 (get_loaded_modules world0) = DAList.empty
   \<and> fst (track_module spec_pkg_mod world0) = Inr ()
   \<and> read_dict (snd (track_module spec_pkg_mod world0)) (get_loaded_modules world0)
       \<noteq> read_dict world0 (get_loaded_modules world0)"
proof -
  have "DAList.lookup (DAList.update ''pkg.mod''
       \<lparr>info_module_name = ''pkg.mod'', path = ''/tmp/pkg/mod.py'', load_time = 100\<rparr>
       DAList.empty) ''pkg.mod'' \<noteq> DAList.lookup DAList.empty ''pkg.mod''"
    by simp
  then have "DAList.update ''pkg.mod''
       \<lparr>info_module_name = ''pkg.mod'', path = ''/tmp/pkg/mod.py'', load_time = 100\<rparr>
       DAList.empty \<noteq> DAList.empty"
    by metis
  then show ?thesis
    by (simp add: read_dict_def get_loaded_modules_def track_pkg_mod_world0
        loaded_modules_def [symmetric])
qed

text \<open>
  C8, amended. \<open>get_loaded_modules\<close> returns the registry object itself: in every later
  state the returned collection is the registry of that state, so insertions and refreshed
  load times show through it.
\<close>

theorem get_loaded_modules_alias:
  "read_dict w' (get_loaded_modules w) = loaded_modules w'"
  by (simp add: read_dict_def get_loaded_modules_def loaded_modules_def)

section \<open>Staleness check\<close>


lemma stale_loop_result:
  "stale_loop w items acc = Inr r \<Longrightarrow>
     r = acc @ map fst (filter (\<lambda>item. stale_check w (fst item) (snd item) = Inr True) items)"
proof (induction items arbitrary: acc)
  case Nil
  then show ?case by simp
next
  case (Cons item items)
  obtain name info where item: "item = (name, info)" by (cases item)
  from Cons.prems item obtain b where b: "stale_check w name info = Inr b"
    and rest: "stale_loop w items (if b then acc @ [name] else acc) = Inr r"
    by (auto split: sum.splits)
  from Cons.IH [OF rest] b item show ?case
    by (cases b) simp_all
qed





lemma get_stale_modules_mem:
  assumes "get_stale_modules w = Inr stale"
  shows "name \<in> set stale \<longleftrightarrow>
    (\<exists>info. DAList.lookup (loaded_modules w) name = Some info \<and> stale_check w name info = Inr True)"
proof -
  have *: "stale = map fst (filter (\<lambda>item. stale_check w (fst item) (snd item) = Inr True)
             (dict_items (loaded_modules w)))"
    using stale_loop_result [of w _ "[]" stale] assms by (simp add: get_stale_modules_def)
  have d: "distinct (map fst (dict_items (loaded_modules w)))" by simp
  show ?thesis
    unfolding * lookup_items using d by (force simp: image_iff)
qed

text \<open>
  C4. For a tracked unit with a live handle whose \<^verbatim>\<open>__file__\<close> is an existing file, the
  loop body classifies it stale exactly when the file's modification time is strictly greater
  than the recorded load time, and whenever \<open>get_stale_modules\<close> returns a list, the unit is
  in it under exactly that condition. With equal times the unit is not in the list.
\<close>

theorem stale_iff_newer:
  assumes tracked: "DAList.lookup (loaded_modules w) name = Some info"
      and handle: "sys_modules w name = Some m"
      and src: "mod_file m = File_str f" "f \<noteq> []"
      and mtime: "files w f = Some mod_time"
  shows "stale_check w name info = Inr (load_time info < mod_time)
       \<and> (\<forall>stale. get_stale_modules w = Inr stale \<longrightarrow>
            (name \<in> set stale \<longleftrightarrow> load_time info < mod_time))"
proof -
  have c: "stale_check w name info = Inr (load_time info < mod_time)"
    using handle src mtime by (simp add: stale_check_def)
  have "name \<in> set stale \<longleftrightarrow> load_time info < mod_time" if "get_stale_modules w = Inr stale" for stale
    using get_stale_modules_mem [OF that, of name] tracked c by simp
  with c show ?thesis by blast
qed

lemma dict_items_world_tracked:
  "dict_items (loaded_modules world_tracked) =
     [(''pkg.mod'', \<lparr>info_module_name = ''pkg.mod'', path = ''/tmp/pkg/mod.py'', load_time = 100\<rparr>)]"
  by (simp add: loaded_modules_world_tracked dict_items_update)

lemma world_loaded_fields [simp]:
  "loaded_modules (world_loaded t n) = loaded_modules world_tracked"
  "sys_modules (world_loaded t n) = [''pkg.mod'' \<mapsto> mod_pkg_mod]"
  "files (world_loaded t n) = [''/tmp/pkg/mod.py'' \<mapsto> t]"
  "clock (world_loaded t n) = n"
  by (simp_all add: world_loaded_def loaded_modules_def)

lemma get_stale_world_loaded:
  "get_stale_modules (world_loaded t n) = Inr (if 100 < t then [''pkg.mod''] else [])"
  by (simp add: get_stale_modules_def dict_items_world_tracked stale_check_def mod_pkg_mod_def)

text \<open>Equal times (100 and 100): not stale. A newer file (150 against 100): stale.\<close>

theorem stale_iff_newer_witness:
  "get_stale_modules (world_loaded 100 100) = Inr []
   \<and> ''pkg.mod'' \<notin> set []
   \<and> get_stale_modules (world_loaded 150 100) = Inr [''pkg.mod'']"
proof -
  let ?i = "\<lparr>info_module_name = ''pkg.mod'', path = ''/tmp/pkg/mod.py'', load_time = 100\<rparr>"
  have h1: "DAList.lookup (loaded_modules (world_loaded t n)) ''pkg.mod'' = Some ?i" for t n
    by (simp add: loaded_modules_world_tracked)
  have h2: "sys_modules (world_loaded t n) ''pkg.mod'' = Some mod_pkg_mod" for t n
    by simp
  have h3: "mod_file mod_pkg_mod = File_str ''/tmp/pkg/mod.py''" "''/tmp/pkg/mod.py'' \<noteq> []"
    by (simp_all add: mod_pkg_mod_def)
  have h4: "files (world_loaded t n) ''/tmp/pkg/mod.py'' = Some t" for t n
    by simp
  from stale_iff_newer [OF h1 h2 h3 h4, of 100 100] stale_iff_newer [OF h1 h2 h3 h4, of 150 100]
  show ?thesis
    by (simp add: get_stale_world_loaded)
qed

lemma dict_items_world_ab:
  "dict_items (loaded_modules world_ab) = [(''a'', info_a), (''b'', info_b)]"
  by (simp add: world_ab_def loaded_modules_def dict_items_update)

lemma loaded_modules_world_ab_variants [simp]:
  "loaded_modules world_a_unloaded = loaded_modules world_ab"
  "loaded_modules world_a_deleted = loaded_modules world_ab"
  by (simp_all add: world_a_unloaded_def world_a_deleted_def loaded_modules_def)

lemma world_ab_fields [simp]:
  "sys_modules world_ab = [''a'' \<mapsto> mod_a, ''b'' \<mapsto> mod_b]"
  "files world_ab = [''/src/a.py'' \<mapsto> 150, ''/src/b.py'' \<mapsto> 150]"
  "clock world_ab = 200"
  "meta_path_tail world_ab = []"
  by (simp_all add: world_ab_def)

lemma mod_ab_file [simp]:
  "mod_file mod_a = File_str ''/src/a.py''" "mod_file mod_b = File_str ''/src/b.py''"
  "load_time info_a = 100" "load_time info_b = 100"
  by (simp_all add: mod_a_def mod_b_def info_a_def info_b_def)

lemma world_ab_variants_fields [simp]:
  "sys_modules world_a_unloaded = [''b'' \<mapsto> mod_b]"
  "files world_a_unloaded = files world_ab"
  "sys_modules world_a_deleted = sys_modules world_ab"
  "files world_a_deleted = [''/src/b.py'' \<mapsto> 150]"
  by (simp_all add: world_a_unloaded_def world_a_deleted_def)

lemma get_stale_world_ab: "get_stale_modules world_ab = Inr [''a'', ''b'']"
  by (simp add: get_stale_modules_def dict_items_world_ab stale_check_def)




section \<open>Reloading one module\<close>

lemma update_module_load_time_fields [simp]:
  "sys_modules (update_module_load_time name w) = sys_modules w"
  "meta_path_tail (update_module_load_time name w) = meta_path_tail w"
  "files (update_module_load_time name w) = files w"
  "clock (update_module_load_time name w) = clock w"
  by (simp_all add: update_module_load_time_def split: option.splits)

lemma update_module_load_time_lookup:
  "DAList.lookup (loaded_modules (update_module_load_time name w)) k =
     (if k = name then map_option (\<lambda>info. info\<lparr>load_time := clock w\<rparr>)
                         (DAList.lookup (loaded_modules w) name)
      else DAList.lookup (loaded_modules w) k)"
  by (auto simp: update_module_load_time_def DAList.lookup_update split: option.splits)

lemma update_module_load_time_untracked:
  "DAList.lookup (loaded_modules w) name = None \<Longrightarrow> update_module_load_time name w = w"
  by (simp add: update_module_load_time_def)

lemma map_fst_AList_update_present:
  "map_of xs k = Some v \<Longrightarrow> map fst (AList.update k v' xs) = map fst xs"
  by (induction xs) (auto split: if_splits)

lemma update_module_load_time_keys:
  "map fst (dict_items (loaded_modules (update_module_load_time name w)))
     = map fst (dict_items (loaded_modules w))"
  by (auto simp: update_module_load_time_def dict_items_update lookup_items
      map_fst_AList_update_present split: option.splits)

lemma reload_module_no_handle:
  "sys_modules w name = None \<Longrightarrow> reload_module reload name w = (Inr (), w)"
  by (simp add: reload_module_def)

lemma reload_module_ok:
  "sys_modules w name = Some m \<Longrightarrow> reload m w = (Inr (), w') \<Longrightarrow>
     reload_module reload name w = (Inr (), update_module_load_time name w')"
  by (simp add: reload_module_def)

lemma reload_module_raises:
  "sys_modules w name = Some m \<Longrightarrow> reload m w = (Inl e, w') \<Longrightarrow>
     reload_module reload name w = (Inl e, w')"
  by (simp add: reload_module_def)

text \<open>
  C6. Without a live handle \<open>reload_module\<close> returns with the state unchanged: the engine
  is not run and the registry is not touched. With a live handle it runs the engine on the
  module object, and when that returns it refreshes the load time: the registry it leaves is
  the one the engine left, with the load time of the identity set to the clock reading after
  the re-execution, the other fields, the other entries and the order of the keys unchanged.
\<close>

theorem reload_module_behaviour:
  "(sys_modules w name = None \<longrightarrow> reload_module reload name w = (Inr (), w))
   \<and> (\<forall>m w'. sys_modules w name = Some m \<and> reload m w = (Inr (), w') \<longrightarrow>
         reload_module reload name w = (Inr (), update_module_load_time name w')
       \<and> (\<forall>info. DAList.lookup (loaded_modules w') name = Some info \<longrightarrow>
             DAList.lookup (loaded_modules (snd (reload_module reload name w))) name
               = Some (info\<lparr>load_time := clock w'\<rparr>))
       \<and> (\<forall>k. k \<noteq> name \<longrightarrow>
             DAList.lookup (loaded_modules (snd (reload_module reload name w))) k
               = DAList.lookup (loaded_modules w') k)
       \<and> map fst (dict_items (loaded_modules (snd (reload_module reload name w))))
            = map fst (dict_items (loaded_modules w')))"
  by (simp add: reload_module_no_handle reload_module_ok update_module_load_time_lookup
      update_module_load_time_keys)

lemma loaded_modules_update_world_loaded:
  "loaded_modules (update_module_load_time ''pkg.mod'' (world_loaded t n)) =
     DAList.update ''pkg.mod''
       \<lparr>info_module_name = ''pkg.mod'', path = ''/tmp/pkg/mod.py'', load_time = n\<rparr> DAList.empty"
  by (simp add: update_module_load_time_def loaded_modules_world_tracked)

lemma reload_ok_world_loaded:
  "reload_module reload_ok ''pkg.mod'' (world_loaded t n)
     = (Inr (), update_module_load_time ''pkg.mod'' (world_loaded t n))"
  by (simp add: reload_module_def reload_ok_def)

lemma get_stale_after_refresh:
  "get_stale_modules (update_module_load_time ''pkg.mod'' (world_loaded t n))
     = Inr (if n < t then [''pkg.mod''] else [])"
  by (simp add: get_stale_modules_def loaded_modules_update_world_loaded dict_items_update
      stale_check_def mod_pkg_mod_def)

text \<open>
  Without a handle nothing changes; with a handle, at clock 120, the load time 100 of
  \<^verbatim>\<open>pkg.mod\<close> becomes 120.
\<close>

theorem reload_module_behaviour_witness:
  "reload_module reload_ok ''pkg.mod'' world_tracked = (Inr (), world_tracked)
   \<and> DAList.lookup (loaded_modules (world_loaded 110 120)) ''pkg.mod''
       = Some \<lparr>info_module_name = ''pkg.mod'', path = ''/tmp/pkg/mod.py'', load_time = 100\<rparr>
   \<and> DAList.lookup (loaded_modules (snd (reload_module reload_ok ''pkg.mod'' (world_loaded 110 120))))
         ''pkg.mod''
       = Some \<lparr>info_module_name = ''pkg.mod'', path = ''/tmp/pkg/mod.py'', load_time = 120\<rparr>"
proof -
  have h1: "sys_modules world_tracked ''pkg.mod'' = None"
    by (simp add: world_tracked_def track_pkg_mod_world0) (simp add: world0_def)
  have h2: "sys_modules (world_loaded 110 120) ''pkg.mod'' = Some mod_pkg_mod"
    by simp
  have h3: "reload_ok mod_pkg_mod (world_loaded 110 120) = (Inr (), world_loaded 110 120)"
    by (simp add: reload_ok_def)
  have h4: "DAList.lookup (loaded_modules (world_loaded 110 120)) ''pkg.mod''
       = Some \<lparr>info_module_name = ''pkg.mod'', path = ''/tmp/pkg/mod.py'', load_time = 100\<rparr>"
    by (simp add: loaded_modules_world_tracked)
  note thm1 = reload_module_behaviour [of world_tracked "''pkg.mod''" reload_ok, THEN conjunct1,
      rule_format, OF h1]
  note thm2 = reload_module_behaviour [of "world_loaded 110 120" "''pkg.mod''" reload_ok,
      THEN conjunct2, rule_format, OF conjI [OF h2 h3], THEN conjunct2, THEN conjunct1,
      rule_format, OF h4]
  from thm1
  have a: "reload_module reload_ok ''pkg.mod'' world_tracked = (Inr (), world_tracked)" .
  from thm2
  have b: "DAList.lookup (loaded_modules (snd (reload_module reload_ok ''pkg.mod'' (world_loaded 110 120))))
         ''pkg.mod''
       = Some \<lparr>info_module_name = ''pkg.mod'', path = ''/tmp/pkg/mod.py'', load_time = 120\<rparr>"
    by simp
  from a b h4 show ?thesis by simp
qed

section \<open>Reload and staleness\<close>

lemma stale_check_True:
  "stale_check w name info = Inr True \<Longrightarrow>
     \<exists>m f t. sys_modules w name = Some m \<and> mod_file m = File_str f \<and> f \<noteq> []
        \<and> files w f = Some t \<and> load_time info < t"
  by (auto simp: stale_check_def split: option.splits file_attr.splits if_splits)

text \<open>
  C7, as the spec states it: after a successful reload of a stale unit whose file is not
  touched again, the unit is not stale at the next check. A file stamped 150 while the
  clock reads 120 at the reload: the refreshed load time is 120 and the unit is stale again.
\<close>

theorem reload_clears_staleness_counterexample:
  "get_stale_modules (world_loaded 150 120) = Inr [''pkg.mod'']
   \<and> fst (reload_module reload_ok ''pkg.mod'' (world_loaded 150 120)) = Inr ()
   \<and> files (snd (reload_module reload_ok ''pkg.mod'' (world_loaded 150 120)))
       = files (world_loaded 150 120)
   \<and> get_stale_modules (snd (reload_module reload_ok ''pkg.mod'' (world_loaded 150 120)))
       = Inr [''pkg.mod'']"
  by (simp add: get_stale_world_loaded reload_ok_world_loaded get_stale_after_refresh)

text \<open>
  C7, amended. If a unit is reported stale, \<open>reload_module\<close> returns for it, and at the
  next check its registry entry, its handle and its own source file are as the reload left
  them (other entries, other handles, other files and the clock may have changed), then the
  unit is not in the next result, provided that the modification time of its file is not later
  than the clock reading at the reload (the load time is refreshed from \<^verbatim>\<open>time.time()\<close>,
  not from the file).
\<close>

theorem reload_clears_staleness:
  assumes stale: "get_stale_modules w = Inr xs" "name \<in> set xs"
      and ok: "reload_module reload name w = (Inr (), w1)"
      and later: "DAList.lookup (loaded_modules w2) name = DAList.lookup (loaded_modules w1) name"
                 "sys_modules w2 name = sys_modules w1 name"
                 "\<forall>m f. sys_modules w1 name = Some m \<and> mod_file m = File_str f \<longrightarrow>
                    files w2 f = files w1 f"
      and not_future: "\<forall>m f t. sys_modules w1 name = Some m \<and> mod_file m = File_str f
                         \<and> files w1 f = Some t \<longrightarrow> t \<le> clock w1"
      and nxt: "get_stale_modules w2 = Inr ys"
  shows "name \<notin> set ys"
proof
  assume "name \<in> set ys"
  with nxt obtain info where info: "DAList.lookup (loaded_modules w2) name = Some info"
    and chk: "stale_check w2 name info = Inr True"
    by (auto simp: get_stale_modules_mem)
  from stale_check_True [OF chk] obtain m f t where
    m: "sys_modules w2 name = Some m" "mod_file m = File_str f" "files w2 f = Some t"
    and newer: "load_time info < t"
    by blast
  from m(1) later(2) have m1: "sys_modules w1 name = Some m" by simp
  with m(2) later(3) have "files w2 f = files w1 f" by blast
  with m(3) have "files w1 f = Some t" by simp
  with m1 m(2) not_future have le: "t \<le> clock w1" by blast
  from stale obtain info0 where "stale_check w name info0 = Inr True"
    by (auto simp: get_stale_modules_mem)
  then obtain m0 where m0: "sys_modules w name = Some m0"
    using stale_check_True by blast
  obtain r we where eng: "reload m0 w = (r, we)" by (cases "reload m0 w")
  with ok m0 have w1: "w1 = update_module_load_time name we"
    by (cases r) (auto simp: reload_module_def)
  from info later(1) have "load_time info = clock w1"
    unfolding w1 by (auto simp: update_module_load_time_lookup)
  with newer le show False by simp
qed

text \<open>
  The file stamped 150, the reload at clock 160: stale before, not stale at a later check at
  clock 170, although another file has appeared in the meantime.
\<close>

theorem reload_clears_staleness_witness:
  "get_stale_modules (world_loaded 150 160) = Inr [''pkg.mod'']
   \<and> reload_module reload_ok ''pkg.mod'' (world_loaded 150 160)
       = (Inr (), update_module_load_time ''pkg.mod'' (world_loaded 150 160))
   \<and> files ((update_module_load_time ''pkg.mod'' (world_loaded 150 160))
        \<lparr>files := [''/tmp/pkg/mod.py'' \<mapsto> 150, ''/tmp/other.py'' \<mapsto> 900], clock := 170\<rparr>)
       \<noteq> files (update_module_load_time ''pkg.mod'' (world_loaded 150 160))
   \<and> get_stale_modules ((update_module_load_time ''pkg.mod'' (world_loaded 150 160))
        \<lparr>files := [''/tmp/pkg/mod.py'' \<mapsto> 150, ''/tmp/other.py'' \<mapsto> 900], clock := 170\<rparr>)
       = Inr []
   \<and> ''pkg.mod'' \<notin> set []"
proof -
  let ?w = "world_loaded 150 160"
  let ?w1 = "update_module_load_time ''pkg.mod'' ?w"
  let ?w2 = "?w1\<lparr>files := [''/tmp/pkg/mod.py'' \<mapsto> 150, ''/tmp/other.py'' \<mapsto> 900], clock := 170\<rparr>"
  have lm: "loaded_modules ?w2 = loaded_modules ?w1"
    by (simp add: loaded_modules_def)
  have h1: "get_stale_modules ?w = Inr [''pkg.mod'']" "''pkg.mod'' \<in> set [''pkg.mod'']"
    by (simp_all add: get_stale_world_loaded)
  have h2: "reload_module reload_ok ''pkg.mod'' ?w = (Inr (), ?w1)"
    by (rule reload_ok_world_loaded)
  have h3: "DAList.lookup (loaded_modules ?w2) ''pkg.mod'' = DAList.lookup (loaded_modules ?w1) ''pkg.mod''"
    "sys_modules ?w2 ''pkg.mod'' = sys_modules ?w1 ''pkg.mod''"
    "\<forall>m f. sys_modules ?w1 ''pkg.mod'' = Some m \<and> mod_file m = File_str f \<longrightarrow>
                    files ?w2 f = files ?w1 f"
    by (simp_all add: lm mod_pkg_mod_def)
  have h4: "\<forall>m f t. sys_modules ?w1 ''pkg.mod'' = Some m \<and> mod_file m = File_str f
                         \<and> files ?w1 f = Some t \<longrightarrow> t \<le> clock ?w1"
    by (auto simp: mod_pkg_mod_def split: if_splits)
  have h5: "get_stale_modules ?w2 = Inr []"
    by (simp add: get_stale_modules_def lm loaded_modules_update_world_loaded dict_items_update
        stale_check_def mod_pkg_mod_def)
  have differs: "files ?w2 \<noteq> files ?w1"
  proof
    assume "files ?w2 = files ?w1"
    then have "files ?w2 ''/tmp/other.py'' = files ?w1 ''/tmp/other.py''" by (rule fun_cong)
    then show False by simp
  qed
  from reload_clears_staleness [OF h1 h2 h3 h4 h5] h1 h2 h5 differs show ?thesis
    by simp
qed

section \<open>Reloading all stale modules\<close>

lemma reload_each_append:
  "reload_each reload (xs @ ys) w =
     (case reload_each reload xs w of
        (Inl e, w') \<Rightarrow> (Inl e, w')
      | (Inr u, w') \<Rightarrow> reload_each reload ys w')"
proof (induction xs arbitrary: w)
  case Nil
  then show ?case by simp
next
  case (Cons x xs)
  obtain r w' where step: "reload_module reload x w = (r, w')"
    by (cases "reload_module reload x w")
  show ?case
  proof (cases r)
    case (Inl e)
    with step show ?thesis by simp
  next
    case (Inr u)
    with step Cons.IH [of w'] show ?thesis by simp
  qed
qed

text \<open>
  C3, as the spec states it: when the re-execution of \<^verbatim>\<open>a\<close> raises and \<^verbatim>\<open>b\<close> is stale
  too, \<^verbatim>\<open>b\<close> is still reloaded and its entry refreshed. With \<^verbatim>\<open>a\<close> tracked before
  \<^verbatim>\<open>b\<close>, the exception of \<^verbatim>\<open>a\<close> leaves \<open>reload_stale_modules\<close> at once: the load
  time of \<^verbatim>\<open>b\<close> is still 100 at clock 200, and both are stale at the next check.
\<close>

theorem reload_stale_modules_isolation_counterexample:
  "get_stale_modules world_ab = Inr [''a'', ''b'']
   \<and> fst (reload_stale_modules reload_a_fails world_ab) = Inl (Foreign ''SyntaxError in a'')
   \<and> DAList.lookup (loaded_modules (snd (reload_stale_modules reload_a_fails world_ab))) ''b''
       = Some info_b
   \<and> load_time info_b = 100
   \<and> get_stale_modules (snd (reload_stale_modules reload_a_fails world_ab)) = Inr [''a'', ''b'']"
proof -
  have "reload_stale_modules reload_a_fails world_ab = (Inl (Foreign ''SyntaxError in a''), world_ab)"
    by (simp add: reload_stale_modules_def get_stale_world_ab reload_module_def reload_a_fails_def
        mod_a_def)
  moreover have "DAList.lookup (loaded_modules world_ab) ''b'' = Some info_b"
    by (simp add: lookup_items dict_items_world_ab)
  ultimately show ?thesis
    by (simp add: get_stale_world_ab)
qed

text \<open>
  C3, amended. If the re-execution of unit A raises during \<open>reload_stale_modules\<close>, the
  exception reaches the caller at once and the state is the one the failed re-execution left:
  the load time of A is not refreshed, the stale units listed before A have been reloaded in
  turn, and the units listed after A are neither re-executed nor refreshed.
\<close>

theorem reload_stale_modules_stops:
  assumes stale: "get_stale_modules w = Inr (pre @ a # post)"
      and before: "reload_each reload pre w = (Inr (), w1)"
      and handle: "sys_modules w1 a = Some m"
      and raises: "reload m w1 = (Inl e, w2)"
  shows "reload_stale_modules reload w = (Inl e, w2)"
proof -
  have "reload_module reload a w1 = (Inl e, w2)"
    using handle raises by (simp add: reload_module_def)
  then have "reload_each reload (a # post) w1 = (Inl e, w2)"
    by simp
  with before have "reload_each reload (pre @ a # post) w = (Inl e, w2)"
    by (simp add: reload_each_append)
  with stale show ?thesis
    by (simp add: reload_stale_modules_def)
qed

text \<open>
  With \<^verbatim>\<open>b\<close> failing, \<^verbatim>\<open>a\<close>, listed before it, has been reloaded and refreshed to the
  clock reading 200, and the load time of \<^verbatim>\<open>b\<close> is still 100.
\<close>

theorem reload_stale_modules_stops_witness:
  "get_stale_modules world_ab = Inr ([''a''] @ ''b'' # [])
   \<and> reload_stale_modules reload_b_fails world_ab
       = (Inl (Foreign ''SyntaxError in b''), update_module_load_time ''a'' world_ab)
   \<and> DAList.lookup (loaded_modules (update_module_load_time ''a'' world_ab)) ''a''
       = Some (info_a\<lparr>load_time := 200\<rparr>)
   \<and> DAList.lookup (loaded_modules (update_module_load_time ''a'' world_ab)) ''b''
       = Some info_b"
proof -
  let ?w1 = "update_module_load_time ''a'' world_ab"
  have h1: "get_stale_modules world_ab = Inr ([''a''] @ ''b'' # [])"
    by (simp add: get_stale_world_ab)
  have h2: "reload_each reload_b_fails [''a''] world_ab = (Inr (), ?w1)"
    by (simp add: reload_module_def reload_b_fails_def mod_a_def)
  have h3: "sys_modules ?w1 ''b'' = Some mod_b"
    by simp
  have h4: "reload_b_fails mod_b ?w1 = (Inl (Foreign ''SyntaxError in b''), ?w1)"
    by (simp add: reload_b_fails_def mod_b_def)
  have l: "DAList.lookup (loaded_modules world_ab) ''a'' = Some info_a"
    "DAList.lookup (loaded_modules world_ab) ''b'' = Some info_b"
    by (simp_all add: lookup_items dict_items_world_ab)
  from reload_stale_modules_stops [OF h1 h2 h3 h4] h1 l show ?thesis
    by (simp add: update_module_load_time_lookup)
qed

section \<open>Reloading an untracked module\<close>

lemma world_os_fields [simp]:
  "loaded_modules world_os = DAList.empty"
  "sys_modules world_os = [''os'' \<mapsto> mod_os]"
  "meta_path_tail world_os = [Finder path_finder]"
  "clock world_os = 100"
  by (simp_all add: world_os_def loaded_modules_def) (simp_all add: world0_def)

text \<open>
  C10, as the claim states it: \<open>reload_module\<close> of an identity that is not in the registry
  leaves the registry unchanged, also when the module is re-executed. Under
  \<^verbatim>\<open>importlib.reload\<close> the re-execution resolves the module through \<open>find_spec\<close>, which
  tracks it: the untracked \<^verbatim>\<open>os\<close> has an entry after \<open>reload_module\<close>.
\<close>

theorem reload_module_untracked_counterexample:
  "\<not> dict_contains (loaded_modules world_os) ''os''
   \<and> sys_modules world_os ''os'' = Some mod_os
   \<and> fst (reload_module (importlib_reload exec_ok) ''os'' world_os) = Inr ()
   \<and> DAList.lookup (loaded_modules (snd (reload_module (importlib_reload exec_ok) ''os'' world_os))) ''os''
       = Some \<lparr>info_module_name = ''os'', path = ''/usr/lib/python3/os.py'', load_time = 100\<rparr>"
  by (simp add: dict_contains_def reload_module_def importlib_reload_def find_spec_def
      path_finder_def mod_os_def os_spec_def track_module_def exec_ok_def
      update_module_load_time_lookup)

text \<open>
  C10, amended. \<open>reload_module\<close> itself creates no registry entry: for an identity that is
  not in the registry, \<open>update_module_load_time\<close> changes nothing, a call without a live
  handle leaves the state unchanged, and a call with a live handle leaves the registry as the
  re-execution left it whenever the re-execution left the identity untracked (in particular
  unchanged when the re-execution did not touch the registry). Entries that appear come from
  the re-execution, which resolves the module through \<open>find_spec\<close> and \<open>track_module\<close>.
\<close>

theorem reload_module_untracked:
  assumes untracked: "\<not> dict_contains (loaded_modules w) name"
  shows "update_module_load_time name w = w
       \<and> (sys_modules w name = None \<longrightarrow> reload_module reload name w = (Inr (), w))
       \<and> (\<forall>m. sys_modules w name = Some m
              \<and> \<not> dict_contains (loaded_modules (snd (reload m w))) name \<longrightarrow>
            loaded_modules (snd (reload_module reload name w)) = loaded_modules (snd (reload m w)))
       \<and> (\<forall>m. sys_modules w name = Some m
              \<and> loaded_modules (snd (reload m w)) = loaded_modules w \<longrightarrow>
            loaded_modules (snd (reload_module reload name w)) = loaded_modules w)"
proof -
  have 1: "update_module_load_time name w = w"
    using untracked by (simp add: update_module_load_time_untracked dict_contains_def)
  have 2: "sys_modules w name = None \<longrightarrow> reload_module reload name w = (Inr (), w)"
    by (simp add: reload_module_def)
  have 3: "loaded_modules (snd (reload_module reload name w)) = loaded_modules (snd (reload m w))"
    if "sys_modules w name = Some m" "\<not> dict_contains (loaded_modules (snd (reload m w))) name" for m
  proof -
    obtain r w' where eng: "reload m w = (r, w')" by (cases "reload m w")
    with that(2) have "update_module_load_time name w' = w'"
      by (simp add: update_module_load_time_untracked dict_contains_def)
    with that(1) eng show ?thesis
      by (cases r) (simp_all add: reload_module_def)
  qed
  have 4: "loaded_modules (snd (reload_module reload name w)) = loaded_modules w"
    if "sys_modules w name = Some m" "loaded_modules (snd (reload m w)) = loaded_modules w" for m
    using 3 [OF that(1)] that(2) untracked by simp
  from 1 2 3 4 show ?thesis by blast
qed

text \<open>
  With an engine that does not touch the registry, \<open>reload_module\<close> of the untracked
  \<^verbatim>\<open>os\<close> leaves the registry empty.
\<close>

theorem reload_module_untracked_witness:
  "\<not> dict_contains (loaded_modules world_os) ''os''
   \<and> sys_modules world_os ''os'' = Some mod_os
   \<and> loaded_modules (snd (reload_module reload_ok ''os'' world_os)) = DAList.empty"
proof -
  have h1: "\<not> dict_contains (loaded_modules world_os) ''os''"
    by (simp add: dict_contains_def)
  have h2: "sys_modules world_os ''os'' = Some mod_os"
    by simp
  have h3: "loaded_modules (snd (reload_ok mod_os world_os)) = loaded_modules world_os"
    by (simp add: reload_ok_def)
  note inst = reload_module_untracked [OF h1, of reload_ok, THEN conjunct2, THEN conjunct2,
      THEN conjunct2, rule_format, OF conjI [OF h2 h3]]
  from inst h1 h2 show ?thesis by simp
qed

section \<open>Interception\<close>


lemma world_ns_fields [simp]:
  "loaded_modules world_ns = loaded_modules world_tracked"
  "meta_path_tail world_ns = [No_find_spec, Finder originless]"
  by (simp_all add: world_ns_def loaded_modules_def)




end
